theory Spec2Isabelle
  imports Main
begin

section \<open>The chat_messages table (Database Schema Design)\<close>

text \<open>
  The architecture document declares the table that stores room messages:
  \<^verbatim>\<open>
  CREATE TABLE chat_messages (
      id UUID PRIMARY KEY DEFAULT gen_random_uuid(),
      room_id UUID REFERENCES study_rooms(id) ON DELETE CASCADE,
      user_id UUID REFERENCES users(id) ON DELETE SET NULL,
      message_type VARCHAR(20) DEFAULT 'text'
        CHECK (message_type IN ('text', 'document_share', 'highlight', 'system')),
      content TEXT NOT NULL,
      ...
      reactions JSONB DEFAULT '{}', -- User reactions {user_id: emoji}
      ...
  );
  \<close>
  A column value is \<open>None\<close> for SQL NULL; the column \<open>id\<close> is the field
  \<open>row_id\<close>. An INSERT gives each column either nothing
  (the column's DEFAULT applies) or an explicit value, which may be NULL.
\<close>

type_synonym uuid = string
type_synonym jsonb = string
type_synonym timestamp = nat

record chat_message =
  row_id :: "uuid option"
  room_id :: "uuid option"
  user_id :: "uuid option"
  message_type :: "string option"
  content :: "string option"
  reply_to_id :: "uuid option"
  document_id :: "uuid option"
  highlight_data :: "jsonb option"
  nft_mint :: "string option"
  arweave_tx :: "string option"
  reactions :: "jsonb option"
  is_pinned :: "bool option"
  is_deleted :: "bool option"
  created_at :: "timestamp option"
  updated_at :: "timestamp option"

datatype 'a insert_value = DEFAULT | VALUE "'a option"

fun resolve :: "'a option \<Rightarrow> 'a insert_value \<Rightarrow> 'a option" where
  "resolve d DEFAULT = d"
| "resolve d (VALUE v) = v"

record chat_message_values =
  v_id :: "uuid insert_value"
  v_room_id :: "uuid insert_value"
  v_user_id :: "uuid insert_value"
  v_message_type :: "string insert_value"
  v_content :: "string insert_value"
  v_reply_to_id :: "uuid insert_value"
  v_document_id :: "uuid insert_value"
  v_highlight_data :: "jsonb insert_value"
  v_nft_mint :: "string insert_value"
  v_arweave_tx :: "string insert_value"
  v_reactions :: "jsonb insert_value"
  v_is_pinned :: "bool insert_value"
  v_is_deleted :: "bool insert_value"
  v_created_at :: "timestamp insert_value"
  v_updated_at :: "timestamp insert_value"

datatype sql_error =
    NotNullViolation
  | UniqueViolation
  | CheckViolation
  | StringDataRightTruncation

text \<open>
  The CHECK constraint of the \<open>message_type\<close> column. SQL's \<open>IN\<close> on NULL is unknown,
  and a CHECK constraint rejects a row only when its condition is false, so NULL passes.
\<close>

definition message_type_values :: "string list" where
  "message_type_values = [''text'', ''document_share'', ''highlight'', ''system'']"

fun message_type_check :: "string option \<Rightarrow> bool" where
  "message_type_check None = True"
| "message_type_check (Some t) = (t \<in> set message_type_values)"

text \<open>\<open>VARCHAR(20)\<close>: a longer value is an error. (PostgreSQL first cuts trailing
  spaces beyond the limit; what is left is 20 characters long and still fails the CHECK,
  whose values are all shorter, so such a value is rejected either way.)\<close>

fun varchar_fits :: "nat \<Rightarrow> string option \<Rightarrow> bool" where
  "varchar_fits n None = True"
| "varchar_fits n (Some s) = (length s \<le> n)"

text \<open>The row an INSERT builds: defaults where the statement gives no value.
  \<open>fresh\<close> is what \<open>gen_random_uuid()\<close> returns and \<open>now\<close> is
  \<open>CURRENT_TIMESTAMP\<close>.\<close>

definition new_row :: "uuid \<Rightarrow> timestamp \<Rightarrow> chat_message_values \<Rightarrow> chat_message" where
  "new_row fresh now v =
     \<lparr> row_id = resolve (Some fresh) (v_id v),
       room_id = resolve None (v_room_id v),
       user_id = resolve None (v_user_id v),
       message_type = resolve (Some ''text'') (v_message_type v),
       content = resolve None (v_content v),
       reply_to_id = resolve None (v_reply_to_id v),
       document_id = resolve None (v_document_id v),
       highlight_data = resolve None (v_highlight_data v),
       nft_mint = resolve None (v_nft_mint v),
       arweave_tx = resolve None (v_arweave_tx v),
       reactions = resolve (Some ''{}'') (v_reactions v),
       is_pinned = resolve (Some False) (v_is_pinned v),
       is_deleted = resolve (Some False) (v_is_deleted v),
       created_at = resolve (Some now) (v_created_at v),
       updated_at = resolve (Some now) (v_updated_at v) \<rparr>"

text \<open>The constraints of the table on one row, given the rows already stored. The
  foreign keys into other tables are not modelled: the model accepts every row the
  database accepts (and more).\<close>

definition check_row :: "chat_message list \<Rightarrow> chat_message \<Rightarrow> sql_error option" where
  "check_row others r =
     (if row_id r = None \<or> content r = None then Some NotNullViolation
      else if \<not> varchar_fits 20 (message_type r) then Some StringDataRightTruncation
      else if \<not> message_type_check (message_type r) then Some CheckViolation
      else if row_id r \<in> set (map row_id others) then Some UniqueViolation
      else None)"

definition insert_chat_message ::
  "uuid \<Rightarrow> timestamp \<Rightarrow> chat_message_values \<Rightarrow> chat_message list \<Rightarrow> sql_error + chat_message list" where
  "insert_chat_message fresh now v table =
     (let r = new_row fresh now v in
      case check_row table r of
        Some e \<Rightarrow> Inl e
      | None \<Rightarrow> Inr (table @ [r]))"

text \<open>\<open>UPDATE chat_messages SET message_type = t WHERE id = k\<close>: the statement fails as
  a whole when a changed row breaks a constraint.\<close>

definition set_type :: "uuid \<Rightarrow> string option \<Rightarrow> chat_message \<Rightarrow> chat_message" where
  "set_type k t r = (if row_id r = Some k then r\<lparr>message_type := t\<rparr> else r)"

definition update_message_type ::
  "uuid \<Rightarrow> string option \<Rightarrow> chat_message list \<Rightarrow> sql_error + chat_message list" where
  "update_message_type k t table =
     (if \<not> varchar_fits 20 t \<and> Some k \<in> set (map row_id table) then Inl StringDataRightTruncation
      else if \<not> message_type_check t \<and> Some k \<in> set (map row_id table) then Inl CheckViolation
      else Inr (map (set_type k t) table))"

datatype statement =
    Insert uuid timestamp chat_message_values
  | UpdateType uuid "string option"

fun execute :: "statement \<Rightarrow> chat_message list \<Rightarrow> sql_error + chat_message list" where
  "execute (Insert fresh now v) table = insert_chat_message fresh now v table"
| "execute (UpdateType k t) table = update_message_type k t table"

text \<open>A session of statements from a table: a failed statement changes nothing.\<close>

fun execute_all :: "statement list \<Rightarrow> chat_message list \<Rightarrow> chat_message list" where
  "execute_all [] table = table"
| "execute_all (s # ss) table =
     (case execute s table of
        Inl e \<Rightarrow> execute_all ss table
      | Inr table' \<Rightarrow> execute_all ss table')"

definition no_values :: chat_message_values where
  "no_values =
     \<lparr> v_id = DEFAULT, v_room_id = DEFAULT, v_user_id = DEFAULT, v_message_type = DEFAULT,
       v_content = DEFAULT, v_reply_to_id = DEFAULT, v_document_id = DEFAULT,
       v_highlight_data = DEFAULT, v_nft_mint = DEFAULT, v_arweave_tx = DEFAULT,
       v_reactions = DEFAULT, v_is_pinned = DEFAULT, v_is_deleted = DEFAULT,
       v_created_at = DEFAULT, v_updated_at = DEFAULT \<rparr>"

definition stored_types_ok :: "chat_message list \<Rightarrow> bool" where
  "stored_types_ok table = list_all (\<lambda>r. message_type_check (message_type r)) table"

section \<open>WebSocket message types (WebSocket Architecture)\<close>

text \<open>
  \<^verbatim>\<open>
  # Incoming message types
  class WSMessageType(Enum):
      CHAT_MESSAGE = "chat_message"
      TYPING_START = "typing_start"
      TYPING_STOP = "typing_stop"
      DOCUMENT_SHARE = "document_share"
      HIGHLIGHT_CREATE = "highlight_create"
      REACTION_ADD = "reaction_add"
      SOCRATIC_QUERY = "socratic_query"

  # Outgoing message types
  class WSBroadcastType(Enum):
      NEW_MESSAGE = "new_message"
      USER_JOINED = "user_joined"
      USER_LEFT = "user_left"
      TYPING_STATUS = "typing_status"
      DOCUMENT_SHARED = "document_shared"
      HIGHLIGHT_CREATED = "highlight_created"
      ACHIEVEMENT_EARNED = "achievement_earned"
      SOCRATIC_RESPONSE = "socratic_response"
  \<close>
  A Python \<open>Enum\<close> is its members in declaration order, each with its value; calling the
  class on a value (\<open>WSMessageType("chat_message")\<close>) returns the member with that value
  and raises \<open>ValueError\<close> when there is none.
\<close>

datatype WSMessageType =
    CHAT_MESSAGE
  | TYPING_START
  | TYPING_STOP
  | DOCUMENT_SHARE
  | HIGHLIGHT_CREATE
  | REACTION_ADD
  | SOCRATIC_QUERY

fun WSMessageType_value :: "WSMessageType \<Rightarrow> string" where
  "WSMessageType_value CHAT_MESSAGE = ''chat_message''"
| "WSMessageType_value TYPING_START = ''typing_start''"
| "WSMessageType_value TYPING_STOP = ''typing_stop''"
| "WSMessageType_value DOCUMENT_SHARE = ''document_share''"
| "WSMessageType_value HIGHLIGHT_CREATE = ''highlight_create''"
| "WSMessageType_value REACTION_ADD = ''reaction_add''"
| "WSMessageType_value SOCRATIC_QUERY = ''socratic_query''"

definition WSMessageType_members :: "WSMessageType list" where
  "WSMessageType_members =
     [CHAT_MESSAGE, TYPING_START, TYPING_STOP, DOCUMENT_SHARE, HIGHLIGHT_CREATE,
      REACTION_ADD, SOCRATIC_QUERY]"

datatype WSBroadcastType =
    NEW_MESSAGE
  | USER_JOINED
  | USER_LEFT
  | TYPING_STATUS
  | DOCUMENT_SHARED
  | HIGHLIGHT_CREATED
  | ACHIEVEMENT_EARNED
  | SOCRATIC_RESPONSE

fun WSBroadcastType_value :: "WSBroadcastType \<Rightarrow> string" where
  "WSBroadcastType_value NEW_MESSAGE = ''new_message''"
| "WSBroadcastType_value USER_JOINED = ''user_joined''"
| "WSBroadcastType_value USER_LEFT = ''user_left''"
| "WSBroadcastType_value TYPING_STATUS = ''typing_status''"
| "WSBroadcastType_value DOCUMENT_SHARED = ''document_shared''"
| "WSBroadcastType_value HIGHLIGHT_CREATED = ''highlight_created''"
| "WSBroadcastType_value ACHIEVEMENT_EARNED = ''achievement_earned''"
| "WSBroadcastType_value SOCRATIC_RESPONSE = ''socratic_response''"

definition WSBroadcastType_members :: "WSBroadcastType list" where
  "WSBroadcastType_members =
     [NEW_MESSAGE, USER_JOINED, USER_LEFT, TYPING_STATUS, DOCUMENT_SHARED,
      HIGHLIGHT_CREATED, ACHIEVEMENT_EARNED, SOCRATIC_RESPONSE]"

datatype py_error = ValueError

text \<open>The enum class called on a value: the first member with that value.\<close>

definition enum_call :: "('a \<Rightarrow> string) \<Rightarrow> 'a list \<Rightarrow> string \<Rightarrow> py_error + 'a" where
  "enum_call val members s =
     (case find (\<lambda>m. val m = s) members of
        None \<Rightarrow> Inl ValueError
      | Some m \<Rightarrow> Inr m)"

definition WSMessageType_call :: "string \<Rightarrow> py_error + WSMessageType" where
  "WSMessageType_call = enum_call WSMessageType_value WSMessageType_members"

definition WSBroadcastType_call :: "string \<Rightarrow> py_error + WSBroadcastType" where
  "WSBroadcastType_call = enum_call WSBroadcastType_value WSBroadcastType_members"

text \<open>
  Modelled from the spec: the envelope of an outbound event, which the sources do not
  declare. Section 6 of the specification: ``Every outbound event carries
  (room_id, sequence, type, payload, timestamp)''; the type is one of the outgoing
  kinds. The fields carry the prefix \<open>ev_\<close>.
\<close>

record outbound_event =
  ev_room_id :: uuid
  ev_sequence :: nat
  ev_type :: WSBroadcastType
  ev_payload :: jsonb
  ev_timestamp :: timestamp

section \<open>Redis PubSub channels (WebSocket Architecture)\<close>

text \<open>
  \<^verbatim>\<open>
  - `room:{room_id}:messages` - Chat messages
  - `room:{room_id}:presence` - User presence updates
  - `room:{room_id}:documents` - Document sharing events
  - `global:notifications` - System-wide notifications
  \<close>
  One constructor for each of the four channel shapes; \<open>channel_name\<close> fills the room
  identifier into the pattern.
\<close>

datatype channel =
    RoomMessages uuid
  | RoomPresence uuid
  | RoomDocuments uuid
  | GlobalNotifications

fun channel_name :: "channel \<Rightarrow> string" where
  "channel_name (RoomMessages room) = ''room:'' @ room @ '':messages''"
| "channel_name (RoomPresence room) = ''room:'' @ room @ '':presence''"
| "channel_name (RoomDocuments room) = ''room:'' @ room @ '':documents''"
| "channel_name GlobalNotifications = ''global:notifications''"

section \<open>redis-cluster-manager.sh\<close>

text \<open>
  The script is lines 1 to 233 of the file, up to \<open>esac\<close>; the TypeScript theme module
  that follows it in the same file is another document (it defines the
  \<open>navigationTheme\<close> that \<open>App.tsx\<close> imports).

  The script runs under \<open>set -e\<close>: a command that fails ends the script, unless it is
  the condition of an \<open>if\<close> or stands left of \<open>||\<close>. A run of the script is the list
  of commands it executes, in order, and how it ended. What the commands answer is the
  environment's: \<open>echo_ok\<close>, \<open>sleep_ok\<close>, \<open>clear_ok\<close>, \<open>date_ok\<close>,
  \<open>compose_ok\<close>, \<open>mkdir_ok\<close> and \<open>cp_ok\<close> say whether a command succeeds (an
  \<open>echo\<close> fails when standard output cannot be written, \<open>clear\<close> when the terminal
  is unknown), \<open>captured\<close> is the text a command substitution reads from a command or
  pipeline, \<open>date_text\<close> and \<open>date_stamp\<close> are what \<open>date\<close> and
  \<open>date +%Y%m%d_%H%M%S\<close> print; the environment answers a command the same way each
  time it runs.
  \<open>script_name\<close> is \<open>$0\<close> and \<open>script_dir\<close> is \<open>SCRIPT_DIR\<close>, which the first
  lines of the script read from the location of the script without changing anything.
\<close>

datatype op =
    Echo string
  | Sleep nat
  | Clear
  | Date "string list"
  | DockerCompose "string list"
  | Mkdir string
  | DockerCp string string

record env =
  script_name :: string
  script_dir :: string
  echo_ok :: "string \<Rightarrow> bool"
  sleep_ok :: "nat \<Rightarrow> bool"
  clear_ok :: bool
  date_ok :: "string list \<Rightarrow> bool"
  compose_ok :: "string list \<Rightarrow> bool"
  mkdir_ok :: "string \<Rightarrow> bool"
  cp_ok :: "string \<Rightarrow> string \<Rightarrow> bool"
  captured :: "string list \<Rightarrow> string"
  date_text :: string
  date_stamp :: string

definition COMPOSE_FILE :: "env \<Rightarrow> string" where
  "COMPOSE_FILE e = script_dir e @ ''/docker-compose.yml''"

text \<open>The colour variables, as \<open>echo -e\<close> prints them (\<open>\033\<close> is the escape
  character).\<close>

definition RED :: string where
  "RED = CHR 0x1B # ''[0;31m''"

definition GREEN :: string where
  "GREEN = CHR 0x1B # ''[0;32m''"

definition YELLOW :: string where
  "YELLOW = CHR 0x1B # ''[1;33m''"

definition BLUE :: string where
  "BLUE = CHR 0x1B # ''[0;34m''"

definition NC :: string where
  "NC = CHR 0x1B # ''[0m''"

definition REDIS_NODES :: "string list" where
  "REDIS_NODES =
     [''redis-node-1:6379'', ''redis-node-2:6379'', ''redis-node-3:6379'',
      ''redis-node-4:6379'', ''redis-node-5:6379'', ''redis-node-6:6379'']"

fun succeeds :: "env \<Rightarrow> op \<Rightarrow> bool" where
  "succeeds e (Echo line) = echo_ok e line"
| "succeeds e (Sleep seconds) = sleep_ok e seconds"
| "succeeds e Clear = clear_ok e"
| "succeeds e (Date args) = date_ok e args"
| "succeeds e (DockerCompose args) = compose_ok e args"
| "succeeds e (Mkdir d) = mkdir_ok e d"
| "succeeds e (DockerCp src dst) = cp_ok e src dst"

text \<open>A statement of a function body: \<open>Run\<close> is a command on its own, which ends the
  script when it fails; \<open>Guarded\<close> is a command whose failure is handled (an \<open>if\<close>
  condition, the left side of \<open>||\<close>, or a command substitution inside an argument).\<close>

datatype stmt = Run op | Guarded op

fun exec :: "env \<Rightarrow> stmt list \<Rightarrow> op list \<times> bool" where
  "exec e [] = ([], True)"
| "exec e (Guarded c # ss) = (c # fst (exec e ss), snd (exec e ss))"
| "exec e (Run c # ss) =
     (if succeeds e c then (c # fst (exec e ss), snd (exec e ss)) else ([c], False))"

definition docker_compose :: "env \<Rightarrow> string list \<Rightarrow> op" where
  "docker_compose e args = DockerCompose ([''-f'', COMPOSE_FILE e] @ args)"

definition log_info :: "string \<Rightarrow> stmt" where
  "log_info msg = Run (Echo (BLUE @ ''[INFO]'' @ NC @ '' '' @ msg))"

definition log_success :: "string \<Rightarrow> stmt" where
  "log_success msg = Run (Echo (GREEN @ ''[SUCCESS]'' @ NC @ '' '' @ msg))"

definition log_warning :: "string \<Rightarrow> stmt" where
  "log_warning msg = Run (Echo (YELLOW @ ''[WARNING]'' @ NC @ '' '' @ msg))"

definition log_error :: "string \<Rightarrow> stmt" where
  "log_error msg = Run (Echo (RED @ ''[ERROR]'' @ NC @ '' '' @ msg))"

definition node_names :: "string list" where
  "node_names =
     [''redis-node-1'', ''redis-node-2'', ''redis-node-3'', ''redis-node-4'',
      ''redis-node-5'', ''redis-node-6'']"

definition start_cluster :: "env \<Rightarrow> stmt list" where
  "start_cluster e =
     [log_info ''Starting Redis cluster...'',
      Run (docker_compose e ([''up'', ''-d''] @ node_names)),
      log_info ''Waiting for nodes to be ready...'',
      Run (Sleep 15),
      log_info ''Initializing cluster...'',
      Run (docker_compose e [''up'', ''redis-cluster-init'']),
      log_success ''Redis cluster started successfully!'']"

definition stop_cluster :: "env \<Rightarrow> stmt list" where
  "stop_cluster e =
     [log_info ''Stopping Redis cluster...'',
      Run (docker_compose e ([''stop''] @ node_names @ [''redis-cluster-init''])),
      log_success ''Redis cluster stopped!'']"

definition restart_cluster :: "env \<Rightarrow> stmt list" where
  "restart_cluster e =
     [log_info ''Restarting Redis cluster...'']
     @ stop_cluster e
     @ [Run (Sleep 5)]
     @ start_cluster e"

text \<open>\<open>for i in {1..6}\<close>: the loop variable is the digit; \<open>port=$((6378 + i))\<close> is
  the second component.\<close>

definition loop_1_6 :: "(string \<times> string) list" where
  "loop_1_6 =
     [(''1'', ''6379''), (''2'', ''6380''), (''3'', ''6381''), (''4'', ''6382''),
      (''5'', ''6383''), (''6'', ''6384'')]"

definition ping_node :: "env \<Rightarrow> string \<Rightarrow> op" where
  "ping_node e i =
     docker_compose e
       [''exec'', ''-T'', ''redis-node-'' @ i, ''redis-cli'', ''-p'', ''6379'', ''ping'']"

definition check_node :: "env \<Rightarrow> string \<times> string \<Rightarrow> stmt list" where
  "check_node e = (\<lambda>(i, port).
     [Guarded (ping_node e i),
      if succeeds e (ping_node e i)
      then log_success (''redis-node-'' @ i @ '' (port '' @ port @ ''): HEALTHY'')
      else log_error (''redis-node-'' @ i @ '' (port '' @ port @ ''): UNHEALTHY'')])"

definition cluster_info :: "env \<Rightarrow> op" where
  "cluster_info e =
     docker_compose e
       [''exec'', ''-T'', ''redis-node-1'', ''redis-cli'', ''--cluster'', ''info'',
        ''redis-node-1:6379'']"

definition check_status :: "env \<Rightarrow> stmt list" where
  "check_status e =
     [log_info ''Checking Redis cluster status...'']
     @ concat (map (check_node e) loop_1_6)
     @ [log_info ''Cluster information:'', Guarded (cluster_info e)]
     @ (if succeeds e (cluster_info e) then []
        else [log_warning ''Could not get cluster info''])"

definition cluster_nodes :: "env \<Rightarrow> op" where
  "cluster_nodes e =
     docker_compose e [''exec'', ''-T'', ''redis-node-1'', ''redis-cli'', ''cluster'', ''nodes'']"

definition show_nodes :: "env \<Rightarrow> stmt list" where
  "show_nodes e =
     [log_info ''Redis cluster nodes:'', Guarded (cluster_nodes e)]
     @ (if succeeds e (cluster_nodes e) then []
        else [log_warning ''Could not get cluster nodes''])"

text \<open>The command substitutions of \<open>monitor_cluster\<close> run
  \<open>docker-compose ... redis-cli info SECTION\<close> through \<open>grep\<close>, \<open>cut\<close> and \<open>tr\<close>;
  the status of the pipeline is that of \<open>tr\<close>, so the \<open>echo "N/A"\<close> after \<open>||\<close>
  is not reached and the variable holds what the pipeline prints.\<close>

definition redis_info :: "env \<Rightarrow> string \<Rightarrow> string \<Rightarrow> op" where
  "redis_info e i section_name =
     docker_compose e [''exec'', ''-T'', ''redis-node-'' @ i, ''redis-cli'', ''info'', section_name]"

definition piped :: "env \<Rightarrow> op \<Rightarrow> string" where
  "piped e c = (case c of DockerCompose args \<Rightarrow> captured e args | _ \<Rightarrow> [])"

definition memory_line :: "env \<Rightarrow> string \<times> string \<Rightarrow> stmt list" where
  "memory_line e = (\<lambda>(i, port).
     [Guarded (redis_info e i ''memory''),
      Run (Echo (''  redis-node-'' @ i @ '': '' @ piped e (redis_info e i ''memory'')))])"

definition clients_line :: "env \<Rightarrow> string \<times> string \<Rightarrow> stmt list" where
  "clients_line e = (\<lambda>(i, port).
     [Guarded (redis_info e i ''clients''),
      Run (Echo (''  redis-node-'' @ i @ '': '' @ piped e (redis_info e i ''clients'')
                 @ '' clients''))])"

text \<open>\<open>echo "$(date)"\<close> runs \<open>date\<close> in a command substitution and prints what it
  printed.\<close>

definition monitor_round :: "env \<Rightarrow> stmt list" where
  "monitor_round e =
     [Run Clear, Run (Echo ''=== Redis Cluster Monitor ===''),
      Guarded (Date []), Run (Echo (date_text e)), Run (Echo [])]
     @ check_status e
     @ [Run (Echo []), log_info ''Memory usage:'']
     @ concat (map (memory_line e) loop_1_6)
     @ [Run (Echo []), log_info ''Connected clients:'']
     @ concat (map (clients_line e) loop_1_6)
     @ [Run (Sleep 10)]"

text \<open>\<open>while true\<close> never leaves the loop: \<open>monitor_cluster e n\<close> is the function up
  to the end of round \<open>n\<close>.\<close>

definition monitor_cluster :: "env \<Rightarrow> nat \<Rightarrow> stmt list" where
  "monitor_cluster e n =
     [log_info ''Monitoring Redis cluster... (Press Ctrl+C to stop)'']
     @ concat (replicate n (monitor_round e))"

text \<open>The two Lua scripts of \<open>test_performance\<close>, line by line.\<close>

definition unlines :: "string list \<Rightarrow> string" where
  "unlines ls = concat (map (\<lambda>l. l @ [CHR 0x0A]) ls)"

definition write_script :: string where
  "write_script = [CHR 0x0A] @ unlines
     [''        for i=1,1000 do'',
      ''            redis.call('set', 'test:key:' .. i, 'value:' .. i, 'ex', 300)'',
      ''        end'',
      ''        return 'OK'' @ [CHR 0x27]]
     @ ''    ''"

definition read_script :: string where
  "read_script = [CHR 0x0A] @ unlines
     [''        local count = 0'',
      ''        for i=1,1000 do'',
      ''            local val = redis.call('get', 'test:key:' .. i)'',
      ''            if val then count = count + 1 end'',
      ''        end'',
      ''        return count'']
     @ ''    ''"

definition test_performance :: "env \<Rightarrow> stmt list" where
  "test_performance e =
     [log_info ''Running Redis cluster performance test...'',
      log_info ''Testing write performance...'',
      Run (docker_compose e
        [''exec'', ''-T'', ''redis-node-1'', ''redis-cli'', ''--cluster'', ''eval'',
         write_script, ''0'']),
      log_info ''Testing read performance...'',
      Run (docker_compose e
        [''exec'', ''-T'', ''redis-node-1'', ''redis-cli'', ''--cluster'', ''eval'',
         read_script, ''0'']),
      log_success ''Performance test completed!'']"

definition scale_up :: "env \<Rightarrow> stmt list" where
  "scale_up e =
     [log_warning ''Scaling up functionality not implemented yet.'',
      log_info ''To scale up manually:'',
      log_info ''1. Add new Redis nodes to docker-compose.yml'',
      log_info ''2. Start the new nodes'',
      log_info ''3. Add them to cluster using: redis-cli --cluster add-node'',
      log_info ''4. Rebalance slots using: redis-cli --cluster rebalance'']"

text \<open>\<open>BACKUP_DIR="$SCRIPT_DIR/redis-backups/$(date +%Y%m%d_%H%M%S)"\<close>, with
  \<open>date_stamp\<close> what \<open>date\<close> prints. The status of the assignment is that of
  \<open>date\<close>, so a failing \<open>date\<close> ends the script.\<close>

definition BACKUP_DIR :: "env \<Rightarrow> string" where
  "BACKUP_DIR e = script_dir e @ ''/redis-backups/'' @ date_stamp e"

definition rdb_dump :: "env \<Rightarrow> string \<Rightarrow> op" where
  "rdb_dump e i =
     docker_compose e
       [''exec'', ''-T'', ''redis-node-'' @ i, ''redis-cli'', ''--rdb'',
        ''/data/backup-node-'' @ i @ ''.rdb'']"

definition container_id :: "env \<Rightarrow> string \<Rightarrow> op" where
  "container_id e i = docker_compose e [''ps'', ''-q'', ''redis-node-'' @ i]"

definition rdb_copy :: "env \<Rightarrow> string \<Rightarrow> op" where
  "rdb_copy e i =
     DockerCp (piped e (container_id e i) @ '':/data/backup-node-'' @ i @ ''.rdb'')
              (BACKUP_DIR e @ ''/'')"

definition backup_node :: "env \<Rightarrow> string \<times> string \<Rightarrow> stmt list" where
  "backup_node e = (\<lambda>(i, port).
     [log_info (''Backing up redis-node-'' @ i @ ''...''), Guarded (rdb_dump e i)]
     @ (if succeeds e (rdb_dump e i) then []
        else [log_warning (''Backup failed for redis-node-'' @ i)])
     @ [Guarded (container_id e i), Guarded (rdb_copy e i)]
     @ (if succeeds e (rdb_copy e i) then []
        else [log_warning (''Could not copy backup for redis-node-'' @ i)]))"

definition backup_cluster :: "env \<Rightarrow> stmt list" where
  "backup_cluster e =
     [log_info ''Creating Redis cluster backup...'',
      Run (Date [''+%Y%m%d_%H%M%S'']),
      Run (Mkdir (BACKUP_DIR e))]
     @ concat (map (backup_node e) loop_1_6)
     @ [log_success (''Backup completed: '' @ BACKUP_DIR e)]"

text \<open>The lines \<open>show_help\<close> prints, one \<open>echo\<close> each.\<close>

definition usage_text :: "env \<Rightarrow> string list" where
  "usage_text e =
     [''Redis Cluster Management Script'',
      [],
      ''Usage: '' @ script_name e @ '' [COMMAND]'',
      [],
      ''Commands:'',
      ''  start       Start the Redis cluster'',
      ''  stop        Stop the Redis cluster'',
      ''  restart     Restart the Redis cluster'',
      ''  status      Check cluster status'',
      ''  nodes       Show cluster nodes'',
      ''  monitor     Monitor cluster in real-time'',
      ''  test        Run performance test'',
      ''  scale       Scale up cluster (placeholder)'',
      ''  backup      Backup cluster data'',
      ''  help        Show this help message'',
      [],
      ''Examples:'',
      ''  '' @ script_name e @ '' start'',
      ''  '' @ script_name e @ '' status'',
      ''  '' @ script_name e @ '' monitor'']"

definition show_help :: "env \<Rightarrow> stmt list" where
  "show_help e = map (\<lambda>line. Run (Echo line)) (usage_text e)"

text \<open>\<open>"${1:-help}"\<close>: the first argument, or \<open>help\<close> when there is none or it is
  empty.\<close>

fun command_word :: "string list \<Rightarrow> string" where
  "command_word [] = ''help''"
| "command_word (a # args) = (if a = [] then ''help'' else a)"

text \<open>The \<open>case\<close> statement: each pattern is a literal word, the last is \<open>help|*\<close>.\<close>

definition dispatch :: "env \<Rightarrow> nat \<Rightarrow> string \<Rightarrow> stmt list" where
  "dispatch e n w =
     (if w = ''start'' then start_cluster e
      else if w = ''stop'' then stop_cluster e
      else if w = ''restart'' then restart_cluster e
      else if w = ''status'' then check_status e
      else if w = ''nodes'' then show_nodes e
      else if w = ''monitor'' then monitor_cluster e n
      else if w = ''test'' then test_performance e
      else if w = ''scale'' then scale_up e
      else if w = ''backup'' then backup_cluster e
      else show_help e)"

datatype ending = Exit0 | ExitFailure | Running

text \<open>The script on its arguments: the commands it executes and how it ends.
  \<open>n\<close> is the number of rounds of \<open>monitor\<close> observed; after them that command is
  still running.\<close>

definition script :: "env \<Rightarrow> nat \<Rightarrow> string list \<Rightarrow> op list \<times> ending" where
  "script e n args =
     (let (trace, ok) = exec e (dispatch e n (command_word args)) in
      (trace,
       if \<not> ok then ExitFailure
       else if command_word args = ''monitor'' then Running
       else Exit0))"


fun is_docker_compose :: "op \<Rightarrow> bool" where
  "is_docker_compose (DockerCompose args) = True"
| "is_docker_compose c = False"





text \<open>An environment in which every docker command fails and everything else works.\<close>

definition example_env :: env where
  "example_env =
     \<lparr> script_name = ''./redis-cluster-manager.sh'',
       script_dir = ''/srv/app'',
       echo_ok = (\<lambda>line. True),
       sleep_ok = (\<lambda>seconds. True),
       clear_ok = True,
       date_ok = (\<lambda>args. True),
       compose_ok = (\<lambda>args. False),
       mkdir_ok = (\<lambda>d. True),
       cp_ok = (\<lambda>src dst. False),
       captured = (\<lambda>args. []),
       date_text = ''Mon Jan  1 00:00:00 UTC 2024'',
       date_stamp = ''20240101_000000'' \<rparr>"


section \<open>App.tsx\<close>

text \<open>
  \<^verbatim>\<open>
  export default function App() {
    return (
      <NavigationContainer theme={navigationTheme}>
        <Stack.Navigator initialRouteName="SignIn" screenOptions={{ headerShown: false }}>
          <Stack.Screen name="SignIn" component={SignInScreen} />
          <Stack.Screen name="SignUp" component={SignUpScreen} />
          <Stack.Screen name="Home" component={HomeScreen} />
        </Stack.Navigator>
      </NavigationContainer>
    );
  }
  \<close>
  The element tree \<open>App\<close> returns, with the props as record fields.
\<close>

datatype component_ref = SignInScreen | SignUpScreen | HomeScreen

datatype theme_ref = navigationTheme

record stack_screen =
  name :: string
  component :: component_ref

record screen_options =
  headerShown :: bool

record stack_navigator =
  initialRouteName :: string
  screenOptions :: screen_options
  screens :: "stack_screen list"

record navigation_container =
  theme :: theme_ref
  navigator :: stack_navigator

definition App :: navigation_container where
  "App =
     \<lparr> theme = navigationTheme,
       navigator =
         \<lparr> initialRouteName = ''SignIn'',
           screenOptions = \<lparr> headerShown = False \<rparr>,
           screens =
             [\<lparr> name = ''SignIn'', component = SignInScreen \<rparr>,
              \<lparr> name = ''SignUp'', component = SignUpScreen \<rparr>,
              \<lparr> name = ''Home'', component = HomeScreen \<rparr>] \<rparr> \<rparr>"

text \<open>The route a stack navigator shows first: the screen named by
  \<open>initialRouteName\<close>, and the first screen when no screen has that name.\<close>

definition initial_route :: "stack_navigator \<Rightarrow> stack_screen option" where
  "initial_route nav =
     (case find (\<lambda>s. name s = initialRouteName nav) (screens nav) of
        Some s \<Rightarrow> Some s
      | None \<Rightarrow> (case screens nav of [] \<Rightarrow> None | s # rest \<Rightarrow> Some s))"

text \<open>
  \<open>HomeScreen\<close> holds one piece of state, \<open>const [booting, setBooting] =
  React.useState(true)\<close>, and renders from it:
  \<^verbatim>\<open>
  <TerminalScreen title="MINDCHAIN // STUDY PLATFORM" showHeader={!booting}>
    {booting ? (
      <BootSequence messages={bootMessages} onComplete={() => setBooting(false)} speed={800} />
    ) : (
      <>
        <TerminalHeader level={2}>SYSTEM STATUS: ONLINE</TerminalHeader>
        <TerminalText color="accent">Welcome to the terminal interface.</TerminalText>
        ...
      </>
    )}
  </TerminalScreen>
  \<close>
  The \<open>onComplete\<close> prop of \<open>BootSequence\<close> is the callback \<open>on_complete\<close> below.
\<close>

datatype element =
    BootSequence "string list" nat
  | TerminalHeader nat string
  | TerminalText "string option" string

record terminal_screen =
  title :: string
  showHeader :: bool
  children :: "element list"

definition bootMessages :: "string list" where
  "bootMessages =
     [''Initializing MINDCHAIN protocol...'',
      ''Loading Solana Web3 connections...'',
      ''Establishing WebSocket channels...'',
      ''Mounting document storage systems...'',
      ''Activating AI chat interfaces...'',
      ''Study platform ready.'']"

text \<open>The bullet character U+2022, in UTF-8.\<close>

definition bullet :: string where
  "bullet = [CHR 0xE2, CHR 0x80, CHR 0xA2]"

definition booting_initial :: bool where
  "booting_initial = True"

definition HomeScreen_render :: "bool \<Rightarrow> terminal_screen" where
  "HomeScreen_render booting =
     \<lparr> title = ''MINDCHAIN // STUDY PLATFORM'',
       showHeader = (\<not> booting),
       children =
         (if booting then [BootSequence bootMessages 800]
          else
            [TerminalHeader 2 ''SYSTEM STATUS: ONLINE'',
             TerminalText (Some ''accent'') ''Welcome to the terminal interface.'',
             TerminalText (Some ''secondary'') ''Available modules:'',
             TerminalText None (bullet @ '' Study Rooms (Token-Gated)''),
             TerminalText None (bullet @ '' Document Chat (AI-Powered)''),
             TerminalText None (bullet @ '' NFT Minting & Achievements''),
             TerminalText None (bullet @ '' Wallet Integration'')]) \<rparr>"

text \<open>\<open>() => setBooting(false)\<close>: the new value of \<open>booting\<close>.\<close>

definition on_complete :: "bool \<Rightarrow> bool" where
  "on_complete booting = False"

text \<open>What happens to a mounted \<open>HomeScreen\<close>: the boot sequence calls
  \<open>onComplete\<close>, or React renders the component again with its state unchanged.\<close>

datatype home_event = OnComplete | Rerender

fun HomeScreen_step :: "bool \<Rightarrow> home_event \<Rightarrow> bool" where
  "HomeScreen_step booting OnComplete = on_complete booting"
| "HomeScreen_step booting Rerender = booting"

definition HomeScreen_after :: "home_event list \<Rightarrow> bool" where
  "HomeScreen_after events = foldl HomeScreen_step booting_initial events"

fun is_boot_sequence :: "element \<Rightarrow> bool" where
  "is_boot_sequence (BootSequence messages speed) = True"
| "is_boot_sequence el = False"

definition shows_boot_sequence :: "terminal_screen \<Rightarrow> bool" where
  "shows_boot_sequence view = list_ex is_boot_sequence (children view)"

definition shows_status_online :: "terminal_screen \<Rightarrow> bool" where
  "shows_status_online view = (TerminalHeader 2 ''SYSTEM STATUS: ONLINE'' \<in> set (children view))"

section \<open>Sequencer (specification, section 4.2)\<close>

text \<open>
  Modelled from the spec: the Sequencer, which the sources do not implement. Section 4.2:
  ``\<open>next(room) -> integer\<close>, strictly increasing per room, starting at 1, surviving
  individual gateway-instance restarts (backed by a shared counter, not gateway-local
  memory)''; section 5: the counters are ``shared across all gateway instances'' and
  advance by ``atomic increment-and-get semantics, not read-modify-write''.

  The shared counters are one store for the whole cluster, a room without a counter
  reading 0. Each gateway instance has memory of its own, which a restart clears.
\<close>

type_synonym room = uuid
type_synonym instance_id = nat

text \<open>Modelled from the spec: \<open>next(room)\<close> as one atomic increment-and-get on the
  shared counter of the room.\<close>

definition Sequencer_next :: "room \<Rightarrow> (room \<Rightarrow> nat) \<Rightarrow> nat \<times> (room \<Rightarrow> nat)" where
  "Sequencer_next r counters = (counters r + 1, counters(r := counters r + 1))"

text \<open>Modelled from the spec: a cluster of gateway instances over the shared counters.
  \<open>served\<close> is gateway-local memory (the calls an instance has served since it
  started).\<close>

record cluster =
  counters :: "room \<Rightarrow> nat"
  served :: "instance_id \<Rightarrow> nat"

definition cluster_start :: cluster where
  "cluster_start = \<lparr> counters = (\<lambda>r. 0), served = (\<lambda>i. 0) \<rparr>"

datatype cluster_event =
    Next instance_id room
  | Restart instance_id

text \<open>Modelled from the spec: one event of the cluster. A call of \<open>next\<close> by an
  instance returns a number (the second component); a restart clears the instance's
  own memory and leaves the shared counters alone.\<close>

fun cluster_step :: "cluster \<Rightarrow> cluster_event \<Rightarrow> cluster \<times> (instance_id \<times> room \<times> nat) option" where
  "cluster_step c (Next i r) =
     (let (n, counters') = Sequencer_next r (counters c) in
      (c\<lparr> counters := counters', served := (served c)(i := served c i + 1) \<rparr>,
       Some (i, r, n)))"
| "cluster_step c (Restart i) = (c\<lparr> served := (served c)(i := 0) \<rparr>, None)"

text \<open>The numbers returned during a run, in order, each with the instance that asked
  and the room.\<close>

fun cluster_run :: "cluster \<Rightarrow> cluster_event list \<Rightarrow> (instance_id \<times> room \<times> nat) list" where
  "cluster_run c [] = []"
| "cluster_run c (ev # evs) =
     (case cluster_step c ev of
        (c', None) \<Rightarrow> cluster_run c' evs
      | (c', Some out) \<Rightarrow> out # cluster_run c' evs)"

text \<open>The sequence numbers a run returned for one room, in order.\<close>

definition issued :: "room \<Rightarrow> (instance_id \<times> room \<times> nat) list \<Rightarrow> nat list" where
  "issued r outs = map (\<lambda>(i, r', n). n) (filter (\<lambda>(i, r', n). r' = r) outs)"

section \<open>ConnectionManager (specification, section 4.5)\<close>

text \<open>
  Modelled from the spec: the connection state machine, which the sources do not
  implement. Section 4.5: ``States: Connecting -> Authorizing -> Joined -> Closing ->
  Closed. Connecting accepts the transport handshake; Authorizing blocks on AccessGate
  (bounded by a timeout -- on timeout, transition to Closing ...); Joined is the only
  state in which inbound application messages are processed; any transport error,
  explicit leave, ban event, or access-revocation event forces Closing; Closed is
  terminal and releases all per-connection resources.''
\<close>

datatype connection_state = Connecting | Authorizing | Joined | Closing | Closed

datatype authorize_result = Allow | Deny string | Error

text \<open>Modelled from the spec: what can happen to a connection. \<open>Handshake\<close> is the
  transport handshake accepted, \<open>Authorized\<close> the answer of AccessGate,
  \<open>AuthorizeTimeout\<close> the bound on that answer running out, \<open>Inbound\<close> an application
  message from the client, \<open>Released\<close> the end of closing (the per-connection resources
  are released); the other four are the events that force closing.\<close>

datatype connection_event =
    Handshake
  | Authorized authorize_result
  | AuthorizeTimeout
  | Inbound WSMessageType
  | TransportError
  | Leave
  | BanEvent
  | AccessRevoked
  | Released

fun forces_closing :: "connection_event \<Rightarrow> bool" where
  "forces_closing TransportError = True"
| "forces_closing Leave = True"
| "forces_closing BanEvent = True"
| "forces_closing AccessRevoked = True"
| "forces_closing ev = False"

text \<open>Modelled from the spec: the transition function. An event that has no
  transition in the current state leaves the state as it is (section 5: results that
  arrive for a closed connection are discarded).\<close>

fun connection_step :: "connection_state \<Rightarrow> connection_event \<Rightarrow> connection_state" where
  "connection_step Closed ev = Closed"
| "connection_step s TransportError = Closing"
| "connection_step s Leave = Closing"
| "connection_step s BanEvent = Closing"
| "connection_step s AccessRevoked = Closing"
| "connection_step Connecting Handshake = Authorizing"
| "connection_step Authorizing (Authorized Allow) = Joined"
| "connection_step Authorizing (Authorized (Deny reason)) = Closing"
| "connection_step Authorizing (Authorized Error) = Closing"
| "connection_step Authorizing AuthorizeTimeout = Closing"
| "connection_step Closing Released = Closed"
| "connection_step s ev = s"

text \<open>Modelled from the spec: whether an event is an inbound application message that
  the connection processes in its current state.\<close>

fun processes_inbound :: "connection_state \<Rightarrow> connection_event \<Rightarrow> bool" where
  "processes_inbound Joined (Inbound m) = True"
| "processes_inbound s ev = False"

text \<open>The position of a state on the line Connecting, Authorizing, Joined, Closing,
  Closed.\<close>

fun state_rank :: "connection_state \<Rightarrow> nat" where
  "state_rank Connecting = 0"
| "state_rank Authorizing = 1"
| "state_rank Joined = 2"
| "state_rank Closing = 3"
| "state_rank Closed = 4"

text \<open>The state after a state on that line; \<open>Closed\<close> is the end of it.\<close>

fun successor :: "connection_state \<Rightarrow> connection_state" where
  "successor Connecting = Authorizing"
| "successor Authorizing = Joined"
| "successor Joined = Closing"
| "successor Closing = Closed"
| "successor Closed = Closed"

text \<open>The states a connection passes through, from a state, under a list of events.\<close>

fun connection_states :: "connection_state \<Rightarrow> connection_event list \<Rightarrow> connection_state list" where
  "connection_states s [] = [s]"
| "connection_states s (ev # evs) = s # connection_states (connection_step s ev) evs"

section \<open>AccessGate (specification, section 4.1)\<close>

text \<open>
  Modelled from the spec: AccessGate and the grant cache, which the sources do not
  implement. Section 3: a room has a gating rule ``open | token_amount_min |
  nft_collection, with the backing asset identifier and threshold''; an AccessGrant is
  ``keyed by (principal, room). Fields: verdict (allow/deny), verified-at, expires-at,
  source (verification result snapshot, e.g., held token amount)''. Section 6: the
  chain verifier is ``verify(principal, rule) -> holding snapshot''.
\<close>

type_synonym principal = string
type_synonym asset = string

datatype gating_rule =
    Open
  | TokenAmountMin asset nat
  | NftCollection asset

datatype action = Join | Post

datatype holding = TokenAmount nat | NftHeld bool

datatype verifier_result = Snapshot holding | VerifierTimeout | VerifierError

record access_grant =
  verdict :: authorize_result
  verified_at :: timestamp
  expires_at :: timestamp
  source :: holding

type_synonym grant_cache = "principal \<times> room \<Rightarrow> access_grant option"

text \<open>Modelled from the spec: a grant is trusted until its expiry (``a grant older than
  its expiry is never trusted'', ``never used past its expires-at'').\<close>

definition unexpired :: "timestamp \<Rightarrow> access_grant \<Rightarrow> bool" where
  "unexpired now g = (now \<le> expires_at g)"

definition cached_verdict :: "timestamp \<Rightarrow> grant_cache \<Rightarrow> principal \<times> room \<Rightarrow> authorize_result option" where
  "cached_verdict now cache k =
     (case cache k of
        None \<Rightarrow> None
      | Some g \<Rightarrow> if unexpired now g then Some (verdict g) else None)"

text \<open>Modelled from the spec: the verdict of a rule on a holding snapshot (section 8:
  with rule \<open>token_amount_min=100\<close>, holding 50 units is denied and holding 150 is
  allowed).\<close>

fun rule_verdict :: "gating_rule \<Rightarrow> holding \<Rightarrow> authorize_result" where
  "rule_verdict Open h = Allow"
| "rule_verdict (TokenAmountMin a threshold) (TokenAmount n) =
     (if threshold \<le> n then Allow else Deny ''AccessDenied'')"
| "rule_verdict (NftCollection a) (NftHeld b) = (if b then Allow else Deny ''AccessDenied'')"
| "rule_verdict r h = Deny ''AccessDenied''"

text \<open>What one call of \<open>authorize\<close> did: its answer, the cache afterwards, and the
  answers of the verifier calls it made.\<close>

record authorize_run =
  answer :: authorize_result
  cache_after :: grant_cache
  verifier_calls :: "verifier_result list"

text \<open>
  Modelled from the spec: \<open>authorize(principal, room, action)\<close>. Section 4.1: ``look up
  AccessGrant cache; if present and unexpired, return its verdict. Otherwise call the
  external chain-verification collaborator with the room's gating rule; on success,
  write a fresh AccessGrant (TTL configurable ...) and return the verdict; on verifier
  timeout or error, return Error (never silently allow). A room with rule open always
  returns Allow for join, but post may still require non-banned Participant status.''

  \<open>verify\<close> is the collaborator, \<open>rule\<close> the gating rule of the room, \<open>banned\<close> the
  ban flag of the participant, \<open>ttl\<close> the configured lifetime of a grant.
\<close>

definition AccessGate_authorize ::
  "(principal \<Rightarrow> gating_rule \<Rightarrow> verifier_result) \<Rightarrow> timestamp \<Rightarrow> nat \<Rightarrow> gating_rule \<Rightarrow> bool \<Rightarrow>
   grant_cache \<Rightarrow> principal \<Rightarrow> room \<Rightarrow> action \<Rightarrow> authorize_run" where
  "AccessGate_authorize verify now ttl rule banned cache p r a =
     (if rule = Open \<and> a = Join then
        \<lparr> answer = Allow, cache_after = cache, verifier_calls = [] \<rparr>
      else if rule = Open \<and> a = Post then
        \<lparr> answer = (if banned then Deny ''Banned'' else Allow), cache_after = cache,
          verifier_calls = [] \<rparr>
      else
        case cached_verdict now cache (p, r) of
          Some v \<Rightarrow> \<lparr> answer = v, cache_after = cache, verifier_calls = [] \<rparr>
        | None \<Rightarrow>
            (case verify p rule of
               Snapshot h \<Rightarrow>
                 \<lparr> answer = rule_verdict rule h,
                   cache_after = cache((p, r) \<mapsto>
                     \<lparr> verdict = rule_verdict rule h, verified_at = now,
                       expires_at = now + ttl, source = h \<rparr>),
                   verifier_calls = [Snapshot h] \<rparr>
             | failure \<Rightarrow>
                 \<lparr> answer = Error, cache_after = cache, verifier_calls = [failure] \<rparr>))"

fun verifier_failed :: "verifier_result \<Rightarrow> bool" where
  "verifier_failed (Snapshot h) = False"
| "verifier_failed VerifierTimeout = True"
| "verifier_failed VerifierError = True"

text \<open>A verifier that is down, and one that reports a balance.\<close>

definition verifier_down :: "principal \<Rightarrow> gating_rule \<Rightarrow> verifier_result" where
  "verifier_down p rule = VerifierTimeout"

definition verifier_balance :: "nat \<Rightarrow> principal \<Rightarrow> gating_rule \<Rightarrow> verifier_result" where
  "verifier_balance n p rule = Snapshot (TokenAmount n)"

section \<open>Stored message types\<close>

lemma insert_keeps_types:
  assumes "stored_types_ok table" and "insert_chat_message fresh now v table = Inr table'"
  shows "stored_types_ok table'"
  using assms
  by (auto simp: insert_chat_message_def check_row_def stored_types_ok_def Let_def
           split: option.splits if_splits)

lemma update_keeps_types:
  assumes "stored_types_ok table" and "update_message_type k t table = Inr table'"
  shows "stored_types_ok table'"
proof -
  from assms(2) have out: "table' = map (set_type k t) table"
    and ok: "message_type_check t \<or> Some k \<notin> set (map row_id table)"
    by (auto simp: update_message_type_def split: if_splits)
  have "message_type_check (message_type (set_type k t r))"
    if "r \<in> set table" "message_type_check (message_type r)" for r
    using that ok by (force simp: set_type_def)
  with assms(1) show ?thesis
    unfolding out stored_types_ok_def by (simp add: list_all_iff)
qed

lemma execute_keeps_types:
  assumes "stored_types_ok table" and "execute s table = Inr table'"
  shows "stored_types_ok table'"
  using assms by (cases s) (auto dest: insert_keeps_types update_keeps_types)

lemma execute_all_keeps_types:
  "stored_types_ok table \<Longrightarrow> stored_types_ok (execute_all ss table)"
proof (induction ss arbitrary: table)
  case Nil
  then show ?case by simp
next
  case (Cons s ss)
  then show ?case
    by (cases "execute s table") (auto dest: execute_keeps_types)
qed

lemma message_type_check_iff:
  "message_type_check t \<longleftrightarrow>
     t \<in> {None, Some ''text'', Some ''document_share'', Some ''highlight'', Some ''system''}"
  by (cases t) (auto simp: message_type_values_def)

lemma insert_of_type:
  assumes "message_type_check t"
  shows "message_type ` set (execute_all
           [Insert ''m1'' 0 (no_values\<lparr>v_message_type := VALUE t, v_content := VALUE (Some ''x'')\<rparr>)] [])
         = {t}"
proof -
  from assms have "varchar_fits 20 t"
    by (cases t) (auto simp: message_type_values_def)
  with assms show ?thesis
    by (simp add: insert_chat_message_def new_row_def check_row_def no_values_def)
qed

text \<open>
  Claim C6, as amended: a value is the \<open>message_type\<close> of a row that some session of
  INSERT and UPDATE statements stores in an initially empty \<open>chat_messages\<close> table
  exactly when it is NULL or one of the four kinds text, document_share, highlight and
  system. The kind reaction is not among them: reactions are kept in the row's
  \<open>reactions\<close> column.
\<close>

theorem stored_message_type_kinds:
  "(\<exists>ss. t \<in> set (map message_type (execute_all ss []))) \<longleftrightarrow>
     t \<in> {None, Some ''text'', Some ''document_share'', Some ''highlight'', Some ''system''}"
proof
  assume "\<exists>ss. t \<in> set (map message_type (execute_all ss []))"
  then obtain ss r where r: "r \<in> set (execute_all ss [])" and t: "t = message_type r"
    by auto
  have "stored_types_ok (execute_all ss [])"
    by (rule execute_all_keeps_types) (simp add: stored_types_ok_def)
  with r have "message_type_check (message_type r)"
    by (simp add: stored_types_ok_def list_all_iff)
  then show "t \<in> {None, Some ''text'', Some ''document_share'', Some ''highlight'', Some ''system''}"
    unfolding t message_type_check_iff .
next
  assume "t \<in> {None, Some ''text'', Some ''document_share'', Some ''highlight'', Some ''system''}"
  then have "message_type_check t"
    unfolding message_type_check_iff .
  from insert_of_type [OF this] show "\<exists>ss. t \<in> set (map message_type (execute_all ss []))"
    unfolding set_map by blast
qed

theorem stored_message_type_kinds_witness:
  "(\<exists>ss. Some ''highlight'' \<in> set (map message_type (execute_all ss [])))
   \<and> \<not> (\<exists>ss. Some ''reaction'' \<in> set (map message_type (execute_all ss [])))"
  using stored_message_type_kinds [of "Some ''highlight''"]
    stored_message_type_kinds [of "Some ''reaction''"]
  by simp

text \<open>The claim as the specification states it admits the kind reaction; the table's
  CHECK constraint rejects a message of that type.\<close>

theorem reaction_type_counterexample:
  "insert_chat_message ''m1'' 0
     (no_values\<lparr>v_message_type := VALUE (Some ''reaction''), v_content := VALUE (Some ''+1'')\<rparr>) []
   = Inl CheckViolation"
  by (simp add: insert_chat_message_def new_row_def check_row_def no_values_def
        message_type_values_def)

section \<open>Message kinds on the wire\<close>

lemma enum_call_iff:
  "(\<exists>k. enum_call val members s = Inr k) \<longleftrightarrow> s \<in> val ` set members"
proof -
  have "(\<exists>k. enum_call val members s = Inr k) \<longleftrightarrow> find (\<lambda>m. val m = s) members \<noteq> None"
    by (simp add: enum_call_def split: option.splits)
  also have "\<dots> \<longleftrightarrow> (\<exists>m \<in> set members. val m = s)"
    by (auto simp: find_None_iff)
  also have "\<dots> \<longleftrightarrow> s \<in> val ` set members"
    by blast
  finally show ?thesis .
qed

lemma WSMessageType_call_iff:
  "(\<exists>k. WSMessageType_call s = Inr k) \<longleftrightarrow> s \<in> WSMessageType_value ` set WSMessageType_members"
  unfolding WSMessageType_call_def by (rule enum_call_iff)

lemma WSBroadcastType_call_iff:
  "(\<exists>k. WSBroadcastType_call s = Inr k) \<longleftrightarrow> s \<in> WSBroadcastType_value ` set WSBroadcastType_members"
  unfolding WSBroadcastType_call_def by (rule enum_call_iff)

lemma WSMessageType_members_all: "set WSMessageType_members = UNIV"
proof -
  have "k \<in> set WSMessageType_members" for k
    by (cases k) (simp_all add: WSMessageType_members_def)
  then show ?thesis by blast
qed

lemma WSBroadcastType_members_all: "set WSBroadcastType_members = UNIV"
proof -
  have "k \<in> set WSBroadcastType_members" for k
    by (cases k) (simp_all add: WSBroadcastType_members_def)
  then show ?thesis by blast
qed

text \<open>
  Claim C7: the inbound kinds are exactly chat_message, typing_start, typing_stop,
  document_share, highlight_create, reaction_add and socratic_query (a string names a
  member of \<open>WSMessageType\<close> exactly when it is one of the seven, and every member's
  value is one of them); the outbound kinds are exactly new_message, user_joined,
  user_left, typing_status, document_shared, highlight_created, achievement_earned and
  socratic_response, likewise for \<open>WSBroadcastType\<close>; and every outbound event
  consists of a room id, a sequence number, a type of one of the eight outbound kinds, a
  payload and a timestamp.
\<close>

theorem message_kinds:
  "((\<exists>k. WSMessageType_call s = Inr k) \<longleftrightarrow>
      s \<in> {''chat_message'', ''typing_start'', ''typing_stop'', ''document_share'',
           ''highlight_create'', ''reaction_add'', ''socratic_query''})
   \<and> range WSMessageType_value =
      {''chat_message'', ''typing_start'', ''typing_stop'', ''document_share'',
       ''highlight_create'', ''reaction_add'', ''socratic_query''}
   \<and> ((\<exists>k. WSBroadcastType_call s = Inr k) \<longleftrightarrow>
      s \<in> {''new_message'', ''user_joined'', ''user_left'', ''typing_status'',
           ''document_shared'', ''highlight_created'', ''achievement_earned'',
           ''socratic_response''})
   \<and> range WSBroadcastType_value =
      {''new_message'', ''user_joined'', ''user_left'', ''typing_status'',
       ''document_shared'', ''highlight_created'', ''achievement_earned'',
       ''socratic_response''}
   \<and> (\<exists>room seq kind payload time.
        (e :: outbound_event) =
          \<lparr>ev_room_id = room, ev_sequence = seq, ev_type = kind, ev_payload = payload,
           ev_timestamp = time\<rparr>
        \<and> WSBroadcastType_value kind \<in>
          {''new_message'', ''user_joined'', ''user_left'', ''typing_status'',
           ''document_shared'', ''highlight_created'', ''achievement_earned'',
           ''socratic_response''})"
proof -
  have in_values: "WSMessageType_value ` set WSMessageType_members =
      {''chat_message'', ''typing_start'', ''typing_stop'', ''document_share'',
       ''highlight_create'', ''reaction_add'', ''socratic_query''}"
    by (simp add: WSMessageType_members_def insert_commute)
  have out_values: "WSBroadcastType_value ` set WSBroadcastType_members =
      {''new_message'', ''user_joined'', ''user_left'', ''typing_status'',
       ''document_shared'', ''highlight_created'', ''achievement_earned'',
       ''socratic_response''}"
    by (simp add: WSBroadcastType_members_def insert_commute)
  have kind: "WSBroadcastType_value k \<in>
      {''new_message'', ''user_joined'', ''user_left'', ''typing_status'',
       ''document_shared'', ''highlight_created'', ''achievement_earned'',
       ''socratic_response''}" for k
    by (cases k) simp_all
  have "e = \<lparr>ev_room_id = ev_room_id e, ev_sequence = ev_sequence e, ev_type = ev_type e,
             ev_payload = ev_payload e, ev_timestamp = ev_timestamp e\<rparr>"
    by simp
  with kind [of "ev_type e"] have envelope: "\<exists>room seq kind payload time.
        e = \<lparr>ev_room_id = room, ev_sequence = seq, ev_type = kind, ev_payload = payload,
             ev_timestamp = time\<rparr>
        \<and> WSBroadcastType_value kind \<in>
          {''new_message'', ''user_joined'', ''user_left'', ''typing_status'',
           ''document_shared'', ''highlight_created'', ''achievement_earned'',
           ''socratic_response''}"
    by blast
  show ?thesis
    using in_values out_values envelope
    unfolding WSMessageType_call_iff WSBroadcastType_call_iff
    by (simp only: WSMessageType_members_all WSBroadcastType_members_all simp_thms)
qed

theorem message_kinds_witness:
  "(\<exists>k. WSMessageType_call ''reaction_add'' = Inr k)
   \<and> (\<nexists>k. WSBroadcastType_call ''reaction_add'' = Inr k)
   \<and> (\<exists>k. WSBroadcastType_call ''user_left'' = Inr k)
   \<and> (\<nexists>k. WSMessageType_call ''user_left'' = Inr k)"
  using message_kinds [of "''reaction_add''"] message_kinds [of "''user_left''"]
  by simp

section \<open>Channel names\<close>

lemma channel_name_inj: "channel_name c = channel_name c' \<longleftrightarrow> c = c'"
proof
  assume eq: "channel_name c = channel_name c'"
  then have "rev (channel_name c) = rev (channel_name c')"
    by simp
  then show "c = c'"
    using eq by (cases c; cases c') simp_all
qed simp

text \<open>
  Claim C8: the pub/sub layer has exactly four channel shapes: per room one channel for
  chat messages, one for presence updates and one for document events, and one
  cluster-wide channel for system notices. Two channels have the same name only when
  they are the same channel (so a room has one channel of each purpose, and no two
  rooms or purposes share one), and a string is a channel name exactly when it has one
  of the four shapes.
\<close>

theorem pubsub_channels:
  "(channel_name c = channel_name c' \<longleftrightarrow> c = c')
   \<and> ((\<exists>ch. channel_name ch = s) \<longleftrightarrow>
        (\<exists>room. s = ''room:'' @ room @ '':messages'')
      \<or> (\<exists>room. s = ''room:'' @ room @ '':presence'')
      \<or> (\<exists>room. s = ''room:'' @ room @ '':documents'')
      \<or> s = ''global:notifications'')"
proof
  show "channel_name c = channel_name c' \<longleftrightarrow> c = c'"
    by (rule channel_name_inj)
next
  show "(\<exists>ch. channel_name ch = s) \<longleftrightarrow>
        (\<exists>room. s = ''room:'' @ room @ '':messages'')
      \<or> (\<exists>room. s = ''room:'' @ room @ '':presence'')
      \<or> (\<exists>room. s = ''room:'' @ room @ '':documents'')
      \<or> s = ''global:notifications''"
    (is "?lhs \<longleftrightarrow> ?rhs")
  proof
    assume ?lhs
    then obtain ch where "channel_name ch = s" ..
    then show ?rhs by (cases ch) auto
  next
    assume ?rhs
    then consider room where "s = channel_name (RoomMessages room)"
      | room where "s = channel_name (RoomPresence room)"
      | room where "s = channel_name (RoomDocuments room)"
      | "s = channel_name GlobalNotifications"
      by auto
    then show ?lhs by cases (metis)+
  qed
qed

theorem pubsub_channels_witness:
  "channel_name (RoomMessages ''r1'') \<noteq> channel_name (RoomMessages ''r2'')
   \<and> channel_name (RoomMessages ''r1'') \<noteq> channel_name (RoomDocuments ''r1'')
   \<and> (\<exists>ch. channel_name ch = ''room:r1:presence'')"
  using pubsub_channels [of "RoomMessages ''r1''" "RoomMessages ''r2''" "''room:r1:presence''"]
    pubsub_channels [of "RoomMessages ''r1''" "RoomDocuments ''r1''" "''room:r1:presence''"]
  by simp

section \<open>The cluster script without a command\<close>





lemma start_runs_docker_compose:
  "list_ex is_docker_compose (fst (script example_env n [''start'']))"
  by (simp add: script_def dispatch_def start_cluster_def log_info_def docker_compose_def
        example_env_def split: prod.splits)




section \<open>The application shell and the boot sequence\<close>

lemma HomeScreen_after_iff: "foldl HomeScreen_step b events \<longleftrightarrow> b \<and> OnComplete \<notin> set events"
proof (induction events arbitrary: b)
  case Nil
  then show ?case by simp
next
  case (Cons ev events)
  then show ?case by (cases ev) (auto simp: on_complete_def)
qed

lemma render_boot: "shows_boot_sequence (HomeScreen_render b) \<longleftrightarrow> b"
  by (simp add: shows_boot_sequence_def HomeScreen_render_def)

lemma render_status: "shows_status_online (HomeScreen_render b) \<longleftrightarrow> \<not> b"
  by (simp add: shows_status_online_def HomeScreen_render_def)

text \<open>
  Claim C10: \<open>App\<close> renders a stack navigator whose initial route is SignIn, with
  exactly the three routes SignIn, SignUp and Home and headers hidden. The Home screen
  starts with \<open>booting\<close> true, so its first render shows the boot sequence and not the
  SYSTEM STATUS: ONLINE content; after any events, that content is shown exactly when
  \<open>onComplete\<close> has been called (which sets \<open>booting\<close> to false), and the boot
  sequence exactly when it has not.
\<close>

theorem app_shell:
  "initialRouteName (navigator App) = ''SignIn''
   \<and> initial_route (navigator App) = Some \<lparr> name = ''SignIn'', component = SignInScreen \<rparr>
   \<and> screens (navigator App) =
       [\<lparr> name = ''SignIn'', component = SignInScreen \<rparr>,
        \<lparr> name = ''SignUp'', component = SignUpScreen \<rparr>,
        \<lparr> name = ''Home'', component = HomeScreen \<rparr>]
   \<and> headerShown (screenOptions (navigator App)) = False
   \<and> booting_initial = True
   \<and> shows_boot_sequence (HomeScreen_render booting_initial)
   \<and> shows_status_online (HomeScreen_render booting_initial) = False
   \<and> on_complete b = False
   \<and> (shows_status_online (HomeScreen_render (HomeScreen_after events))
        \<longleftrightarrow> OnComplete \<in> set events)
   \<and> (shows_boot_sequence (HomeScreen_render (HomeScreen_after events))
        \<longleftrightarrow> OnComplete \<notin> set events)"
proof -
  have nav: "initialRouteName (navigator App) = ''SignIn''
      \<and> initial_route (navigator App) = Some \<lparr> name = ''SignIn'', component = SignInScreen \<rparr>
      \<and> screens (navigator App) =
          [\<lparr> name = ''SignIn'', component = SignInScreen \<rparr>,
           \<lparr> name = ''SignUp'', component = SignUpScreen \<rparr>,
           \<lparr> name = ''Home'', component = HomeScreen \<rparr>]
      \<and> headerShown (screenOptions (navigator App)) = False"
    by (simp add: App_def initial_route_def)
  have after: "HomeScreen_after events \<longleftrightarrow> OnComplete \<notin> set events"
    by (simp add: HomeScreen_after_def HomeScreen_after_iff booting_initial_def)
  show ?thesis
    using nav by (simp add: render_boot render_status after booting_initial_def on_complete_def)
qed

theorem app_shell_witness:
  "shows_status_online (HomeScreen_render (HomeScreen_after [Rerender, OnComplete, Rerender]))
   \<and> shows_boot_sequence (HomeScreen_render (HomeScreen_after [Rerender, Rerender]))"
  using app_shell [of True "[Rerender, OnComplete, Rerender]"] app_shell [of True "[Rerender, Rerender]"]
  by simp

section \<open>Sequence numbers of the specified Sequencer\<close>

lemma issued_Cons:
  "issued r ((i, r', n) # outs) = (if r' = r then n # issued r outs else issued r outs)"
  by (simp add: issued_def)

lemma upt_shift: "a # [Suc a ..< Suc a + k] = [a ..< a + Suc k]"
  by (simp add: upt_conv_Cons)

lemma issued_from:
  "issued r (cluster_run c evs) =
     [Suc (counters c r) ..< Suc (counters c r) + length (issued r (cluster_run c evs))]"
proof (induction evs arbitrary: c)
  case Nil
  then show ?case by (simp add: issued_def)
next
  case (Cons ev evs)
  show ?case
  proof (cases ev)
    case (Restart i)
    with Cons [of "c\<lparr>served := (served c)(i := 0)\<rparr>"] show ?thesis by simp
  next
    case (Next i r')
    define c' where
      "c' = c\<lparr>counters := (counters c)(r' := counters c r' + 1),
               served := (served c)(i := served c i + 1)\<rparr>"
    have run: "cluster_run c (ev # evs) = (i, r', counters c r' + 1) # cluster_run c' evs"
      by (simp add: Next c'_def Sequencer_next_def)
    define k where "k = length (issued r (cluster_run c' evs))"
    show ?thesis
    proof (cases "r' = r")
      case True
      have "counters c' r = Suc (counters c r)"
        by (simp add: c'_def True)
      with Cons [of c'] have tail:
        "issued r (cluster_run c' evs) = [Suc (Suc (counters c r)) ..< Suc (Suc (counters c r)) + k]"
        by (simp add: k_def)
      have "issued r (cluster_run c (ev # evs)) = Suc (counters c r) # issued r (cluster_run c' evs)"
        unfolding run by (simp add: issued_Cons True)
      also have "\<dots> = Suc (counters c r) # [Suc (Suc (counters c r)) ..< Suc (Suc (counters c r)) + k]"
        using tail by simp
      also have "\<dots> = [Suc (counters c r) ..< Suc (counters c r) + Suc k]"
        by (rule upt_shift)
      finally have eq: "issued r (cluster_run c (ev # evs)) = [Suc (counters c r) ..< Suc (counters c r) + Suc k]" .
      then have "length (issued r (cluster_run c (ev # evs))) = Suc k"
        by simp
      with eq show ?thesis by simp
    next
      case False
      then have "counters c' r = counters c r"
        by (simp add: c'_def)
      with Cons [of c'] show ?thesis
        unfolding run by (simp add: issued_Cons False)
    qed
  qed
qed

lemma room_number_distinct:
  assumes "\<And>r. distinct (issued r outs)"
  shows "distinct (map snd outs)"
  using assms
proof (induction outs)
  case Nil
  then show ?case by simp
next
  case (Cons out outs)
  obtain i r n where out: "out = (i, r, n)"
    by (cases out)
  have tail: "distinct (issued r' outs)" for r'
    using Cons.prems [of r'] by (simp add: out issued_Cons split: if_splits)
  have "n \<notin> set (issued r outs)"
    using Cons.prems [of r] by (simp add: out issued_Cons)
  then have new: "(r, n) \<notin> snd ` set outs"
    by (force simp: issued_def)
  have "distinct (map snd outs)"
    using tail by (rule Cons.IH)
  with new show ?case
    unfolding out by simp
qed

text \<open>
  Claim C3, against the Sequencer modelled from the specification: in every run of a
  cluster (calls of \<open>next\<close> by any instances, interleaved with restarts of instances),
  the numbers returned for a room are 1, 2, 3, ... in this order: the first call returns
  1 and every later call a strictly greater number than the calls before it, restarts
  or not; and no two calls, whichever instances make them, obtain the same number for
  the same room.
\<close>

theorem sequencer_numbers:
  "issued r (cluster_run cluster_start evs) =
     [1 ..< Suc (length (issued r (cluster_run cluster_start evs)))]
   \<and> sorted_wrt (<) (issued r (cluster_run cluster_start evs))
   \<and> distinct (map snd (cluster_run cluster_start evs))"
proof -
  have numbers: "issued r' (cluster_run cluster_start evs) =
      [1 ..< Suc (length (issued r' (cluster_run cluster_start evs)))]" for r'
    using issued_from [of r' cluster_start evs] by (simp add: cluster_start_def)
  have increasing: "sorted_wrt (<) (issued r (cluster_run cluster_start evs))"
    by (subst numbers) (rule sorted_wrt_upt)
  have "distinct (issued r' (cluster_run cluster_start evs))" for r'
    by (subst numbers) (rule distinct_upt)
  then have "distinct (map snd (cluster_run cluster_start evs))"
    by (rule room_number_distinct)
  with numbers [of r] increasing show ?thesis
    by blast
qed

theorem sequencer_numbers_witness:
  "issued ''r1'' (cluster_run cluster_start
     [Next 0 ''r1'', Next 1 ''r2'', Restart 0, Next 1 ''r1'', Restart 1, Next 0 ''r1'']) = [1, 2, 3]"
  using sequencer_numbers [of "''r1''"
    "[Next 0 ''r1'', Next 1 ''r2'', Restart 0, Next 1 ''r1'', Restart 1, Next 0 ''r1'']"]
  by (simp add: cluster_start_def Sequencer_next_def issued_def)

section \<open>The specified connection state machine\<close>

lemma step_forward: "state_rank s \<le> state_rank (connection_step s ev)"
  by (cases "(s, ev)" rule: connection_step.cases) auto

lemma states_above:
  assumes "s' \<in> set (connection_states s evs)"
  shows "state_rank s \<le> state_rank s'"
  using assms
proof (induction evs arbitrary: s)
  case Nil
  then show ?case by simp
next
  case (Cons ev evs)
  from Cons.prems
  have "s' = s \<or> s' \<in> set (connection_states (connection_step s ev) evs)"
    by simp
  then show ?case
  proof
    assume "s' = s"
    then show ?thesis by simp
  next
    assume "s' \<in> set (connection_states (connection_step s ev) evs)"
    then have "state_rank (connection_step s ev) \<le> state_rank s'"
      by (rule Cons.IH)
    with step_forward [of s ev] show ?thesis
      by (rule order_trans)
  qed
qed

lemma states_sorted: "sorted (map state_rank (connection_states s evs))"
proof (induction evs arbitrary: s)
  case Nil
  then show ?case by simp
next
  case (Cons ev evs)
  have "state_rank s \<le> state_rank s'"
    if "s' \<in> set (connection_states (connection_step s ev) evs)" for s'
    using that states_above [of s' "connection_step s ev" evs] step_forward [of s ev]
    by simp
  with Cons.IH [of "connection_step s ev"] show ?case
    by simp
qed

lemma closed_stays: "set (connection_states Closed evs) = {Closed}"
  by (induction evs) auto

lemma forced_closing:
  "forces_closing ev \<Longrightarrow> connection_step s ev = (if s = Closed then Closed else Closing)"
  by (cases s; cases ev) auto

lemma processes_iff: "processes_inbound s ev \<longleftrightarrow> s = Joined \<and> (\<exists>m. ev = Inbound m)"
  by (cases "(s, ev)" rule: processes_inbound.cases) auto

lemma step_cases:
  "connection_step s ev = s \<or> connection_step s ev = successor s
   \<or> (s \<noteq> Closed \<and> connection_step s ev = Closing)"
  by (cases "(s, ev)" rule: connection_step.cases) auto

text \<open>
  Claim C5, against the state machine modelled from the specification: every step of a
  connection stays in its state, moves to the next state of the line Connecting,
  Authorizing, Joined, Closing, Closed, or moves to Closing, so the states a connection
  passes through never go back on that line; an event is processed as an inbound
  application message exactly when it is one and the connection is Joined; a transport
  error, an explicit leave, a ban event and an access revocation each take every
  connection that is not yet Closed to Closing; and no event takes a connection out of
  Closed.
\<close>

theorem connection_state_machine:
  "(connection_step s ev = s \<or> connection_step s ev = successor s
     \<or> (s \<noteq> Closed \<and> connection_step s ev = Closing))
   \<and> sorted (map state_rank (connection_states Connecting evs))
   \<and> (processes_inbound s ev \<longleftrightarrow> s = Joined \<and> (\<exists>m. ev = Inbound m))
   \<and> connection_step s TransportError = (if s = Closed then Closed else Closing)
   \<and> connection_step s Leave = (if s = Closed then Closed else Closing)
   \<and> connection_step s BanEvent = (if s = Closed then Closed else Closing)
   \<and> connection_step s AccessRevoked = (if s = Closed then Closed else Closing)
   \<and> connection_step Closed ev = Closed
   \<and> set (connection_states Closed evs) = {Closed}"
  using step_cases [of s ev] states_sorted [of Connecting evs] processes_iff [of s ev]
    forced_closing [of TransportError s] forced_closing [of Leave s]
    forced_closing [of BanEvent s] forced_closing [of AccessRevoked s]
    closed_stays [of evs]
  by simp

theorem connection_state_machine_witness:
  "connection_states Connecting
     [Handshake, Inbound CHAT_MESSAGE, Authorized Allow, Inbound CHAT_MESSAGE, BanEvent,
      Inbound CHAT_MESSAGE, Released, Handshake]
   = [Connecting, Authorizing, Authorizing, Joined, Joined, Closing, Closing, Closed, Closed]
   \<and> processes_inbound Joined (Inbound CHAT_MESSAGE)
   \<and> connection_step Joined BanEvent = Closing"
  using connection_state_machine [of Joined "Inbound CHAT_MESSAGE" "[]"]
    connection_state_machine [of Joined BanEvent "[]"]
  by simp

section \<open>The specified AccessGate when the verifier fails\<close>

lemma authorize_calls:
  "verifier_calls (AccessGate_authorize verify now ttl rule banned cache p r a) =
     (if rule = Open \<or> cached_verdict now cache (p, r) \<noteq> None then [] else [verify p rule])"
  by (cases a) (auto simp: AccessGate_authorize_def split: option.splits verifier_result.splits)

lemma scenario_holdings:
  "answer (AccessGate_authorize (verifier_balance 50) 1000 60 (TokenAmountMin ''A'' 100) False
            Map.empty ''P'' ''R'' Join) = Deny ''AccessDenied''"
  "answer (AccessGate_authorize (verifier_balance 150) 1000 60 (TokenAmountMin ''A'' 100) False
            Map.empty ''P'' ''R'' Join) = Allow"
  by (simp_all add: AccessGate_authorize_def cached_verdict_def verifier_balance_def)

text \<open>
  Claim C2, against the AccessGate modelled from the specification: for every principal,
  room and action, when the cache holds no unexpired grant for the pair and the call to
  the chain verifier times out or fails, \<open>authorize\<close> answers Error, not Allow, and
  writes no grant.
\<close>

theorem verifier_failure_is_error:
  assumes "\<forall>g. cache (p, r) = Some g \<longrightarrow> \<not> unexpired now g"
    and "list_ex verifier_failed
           (verifier_calls (AccessGate_authorize verify now ttl rule banned cache p r a))"
  shows "answer (AccessGate_authorize verify now ttl rule banned cache p r a) = Error
    \<and> answer (AccessGate_authorize verify now ttl rule banned cache p r a) \<noteq> Allow
    \<and> cache_after (AccessGate_authorize verify now ttl rule banned cache p r a) = cache"
proof -
  from assms(2) have called: "rule \<noteq> Open" "cached_verdict now cache (p, r) = None"
    and failed: "verifier_failed (verify p rule)"
    unfolding authorize_calls by (auto split: if_splits)
  from failed have "verify p rule = VerifierTimeout \<or> verify p rule = VerifierError"
    by (cases "verify p rule") auto
  with called show ?thesis
    by (auto simp: AccessGate_authorize_def)
qed

theorem verifier_failure_is_error_witness:
  "answer (AccessGate_authorize verifier_down 1000 60 (TokenAmountMin ''A'' 100) False
            Map.empty ''alice'' ''r1'' Join) = Error"
  using verifier_failure_is_error [of Map.empty "''alice''" "''r1''" 1000 verifier_down 60
    "TokenAmountMin ''A'' 100" False Join]
  by (simp add: AccessGate_authorize_def cached_verdict_def verifier_down_def)

end
